theory Spec2Isabelle
  imports Main "HOL-Library.Word"
begin

unbundle bit_operations_syntax

section \<open>Python values\<close>

text \<open>
  The module \<open>fastapi_ratelimiter/strategies.py\<close> is embedded function by function.
  A method keeps its name without the leading underscore; the two methods
  \<open>get_ratelimit_status\<close> carry the name of their strategy in front. The clock readings
  of \<open>time.time()\<close> and the store are arguments. A Python \<open>str\<close> is the list of
  its code points, for text in U+0000..U+00FF (a \<open>char\<close> has eight bits); \<open>bytes\<close> is
  a list of 8-bit words; Python's \<open>int\<close> is \<open>int\<close>. An exception is a value of
  \<open>error\<close> on the left of a sum.
\<close>

type_synonym byte = "8 word"

datatype error =
    TypeError
  | AttributeError
  | ValueError
  | ZeroDivisionError
  | ResponseError
  | Raised string

text \<open>The request identifier, \<open>Union[str, bytes]\<close>.\<close>

datatype ident = IdStr string | IdBytes "byte list"

text \<open>
  The objects the bucketing strategy handles untyped: text, bytes, an integer, a
  coroutine object (with the address its \<open>repr\<close> prints) and the request object.
\<close>

datatype 'r pyval =
    PyStr string
  | PyBytes "byte list"
  | PyInt int
  | PyCoroutine nat
  | PyRequest 'r

subsection \<open>Printing and reading integers\<close>

definition digit_char :: "int \<Rightarrow> char" where
  "digit_char d = char_of (48 + d)"

function str_digits :: "int \<Rightarrow> string" where
  "str_digits n =
     (if n < 10 then [digit_char n] else str_digits (n div 10) @ [digit_char (n mod 10)])"
  by pat_completeness auto
termination
  by (relation "measure nat") auto

declare str_digits.simps [simp del]

text \<open>\<open>str(n)\<close>, \<open>'%d' % n\<close> and \<open>f"{n}"\<close> for an \<open>int\<close>.\<close>

definition str_int :: "int \<Rightarrow> string" where
  "str_int i = (if i < 0 then CHR ''-'' # str_digits (- i) else str_digits i)"

definition hex_char :: "nat \<Rightarrow> char" where
  "hex_char d = (if d < 10 then char_of (48 + d) else char_of (87 + d))"

fun hex_nat :: "nat \<Rightarrow> string" where
  "hex_nat n = (if n < 16 then [hex_char n] else hex_nat (n div 16) @ [hex_char (n mod 16)])"

declare hex_nat.simps [simp del]

text \<open>
  The characters \<open>int()\<close> skips at both ends of a \<open>str\<close>, on U+0000..U+00FF: tab,
  line feed, vertical tab, form feed, carriage return and space, and U+0085 and U+00A0.
  (U+001C..U+001F are whitespace to \<open>str.isspace\<close> but not to \<open>int()\<close>.)
\<close>

definition is_space :: "char \<Rightarrow> bool" where
  "is_space c = (let n = (of_char c :: nat) in
     (9 \<le> n \<and> n \<le> 13) \<or> n = 32 \<or> n = 133 \<or> n = 160)"

definition is_digit :: "char \<Rightarrow> bool" where
  "is_digit c = (let n = (of_char c :: nat) in 48 \<le> n \<and> n \<le> 57)"

definition strip :: "string \<Rightarrow> string" where
  "strip s = rev (dropWhile is_space (rev (dropWhile is_space s)))"

text \<open>
  The decimal literal \<open>int()\<close> accepts: digits, with single underscores between
  digits. The flag says that the previous character was a digit.
\<close>

fun parse_digits :: "bool \<Rightarrow> nat \<Rightarrow> string \<Rightarrow> nat option" where
  "parse_digits prev acc [] = (if prev then Some acc else None)"
| "parse_digits prev acc (c # cs) =
     (if is_digit c then parse_digits True (acc * 10 + (of_char c - 48)) cs
      else if c = CHR ''_'' \<and> prev then parse_digits False acc cs
      else None)"

text \<open>
  \<open>int(s)\<close> for a \<open>str\<close>: surrounding whitespace, a sign, the literal; else ValueError.
  (The bound that recent interpreters put on the number of digits is left out.)
\<close>

definition py_int :: "string \<Rightarrow> error + int" where
  "py_int s =
     (let t = strip s;
          neg = (case t of [] \<Rightarrow> False | c # cs \<Rightarrow> c = CHR ''-'');
          body = (case t of [] \<Rightarrow> []
                  | c # cs \<Rightarrow> if c = CHR ''-'' \<or> c = CHR ''+'' then cs else t)
      in case parse_digits False 0 body of
           None \<Rightarrow> Inl ValueError
         | Some n \<Rightarrow> Inr (if neg then - int n else int n))"

subsection \<open>Text and bytes\<close>

text \<open>\<open>s.split(sep)\<close> for a one-character separator: never an empty list.\<close>

fun split_on :: "char \<Rightarrow> string \<Rightarrow> string list" where
  "split_on sep [] = [[]]"
| "split_on sep (c # cs) =
     (if c = sep then [] # split_on sep cs
      else (case split_on sep cs of
              [] \<Rightarrow> [[c]]
            | w # ws \<Rightarrow> (c # w) # ws))"

text \<open>\<open>s.encode('utf-8')\<close> on code points up to U+00FF: one byte, or two from U+0080.\<close>

definition utf8_char :: "char \<Rightarrow> byte list" where
  "utf8_char c = (let n = (of_char c :: nat) in
     if n < 128 then [of_nat n] else [of_nat (192 + n div 64), of_nat (128 + n mod 64)])"

definition utf8_encode :: "string \<Rightarrow> byte list" where
  "utf8_encode s = concat (map utf8_char s)"

text \<open>
  \<open>repr\<close> of a \<open>bytes\<close> object, which is what \<open>str()\<close> and an f-string print for it:
  single quotes unless the bytes hold a single and no double quote.
\<close>

definition repr_quote :: "byte list \<Rightarrow> byte" where
  "repr_quote bs = (if 39 \<in> set bs \<and> 34 \<notin> set bs then 34 else 39)"

definition repr_byte :: "byte \<Rightarrow> byte \<Rightarrow> string" where
  "repr_byte q b =
     (if b = q \<or> b = 92 then [CHR 0x5C, char_of (unat b)]
      else if b = 9 then [CHR 0x5C, CHR ''t'']
      else if b = 10 then [CHR 0x5C, CHR ''n'']
      else if b = 13 then [CHR 0x5C, CHR ''r'']
      else if b < 32 \<or> 127 \<le> b then
        [CHR 0x5C, CHR ''x'', hex_char (unat b div 16), hex_char (unat b mod 16)]
      else [char_of (unat b)])"

definition bytes_repr :: "byte list \<Rightarrow> string" where
  "bytes_repr bs = (let q = repr_quote bs in
     CHR ''b'' # char_of (unat q) # concat (map (repr_byte q) bs) @ [char_of (unat q)])"

text \<open>What \<open>f"{request_identifier}"\<close> prints.\<close>

fun format_ident :: "ident \<Rightarrow> string" where
  "format_ident (IdStr s) = s"
| "format_ident (IdBytes bs) = bytes_repr bs"

text \<open>\<open>str()\<close> of the coroutine object that a call of \<open>_get_window\<close> makes.\<close>

definition str_coroutine :: "nat \<Rightarrow> string" where
  "str_coroutine addr =
     ''<coroutine object BucketingRateLimitStrategy._get_window at 0x'' @ hex_nat addr @ ''>''"

text \<open>
  \<open>u''.join(items)\<close>: TypeError at the first item that is not a \<open>str\<close>.
\<close>

fun str_join :: "'r pyval list \<Rightarrow> error + string" where
  "str_join [] = Inr []"
| "str_join (PyStr s # vs) = (case str_join vs of Inl e \<Rightarrow> Inl e | Inr t \<Rightarrow> Inr (s @ t))"
| "str_join (v # vs) = Inl TypeError"

subsection \<open>zlib.crc32\<close>

text \<open>
  The CRC-32 of zlib (reflected polynomial \<open>0xEDB88320\<close>, initial value and final
  complement \<open>0xFFFFFFFF\<close>), bit by bit; Python returns it as an unsigned \<open>int\<close>.
\<close>

definition crc32_bit :: "32 word \<Rightarrow> 32 word" where
  "crc32_bit c = (if bit c 0 then drop_bit 1 c XOR 0xEDB88320 else drop_bit 1 c)"

definition crc32_byte :: "32 word \<Rightarrow> byte \<Rightarrow> 32 word" where
  "crc32_byte c b = (crc32_bit ^^ 8) (c XOR ucast b)"

definition crc32 :: "byte list \<Rightarrow> int" where
  "crc32 bs = uint (foldl crc32_byte 0xFFFFFFFF bs XOR 0xFFFFFFFF)"

section \<open>Configuration, status and strategy\<close>

text \<open>
  \<open>RateLimitConfig\<close> is declared in \<open>fastapi_ratelimiter/config.py\<close>; the strategies
  read its two integer fields.
\<close>

record RateLimitConfig =
  max_count :: int
  period_in_seconds :: int

record RateLimitStatus =
  number_of_requests :: int
  ratelimit_config :: RateLimitConfig
  time_left :: int

definition limit :: "RateLimitStatus \<Rightarrow> int" where
  "limit s = max_count (ratelimit_config s)"

definition remaining_number_of_requests :: "RateLimitStatus \<Rightarrow> int" where
  "remaining_number_of_requests s = limit s - number_of_requests s"

definition should_limit :: "RateLimitStatus \<Rightarrow> bool" where
  "should_limit s = (number_of_requests s > limit s)"

definition DEFAULT_PREFIX :: string where
  "DEFAULT_PREFIX = ''rl:''"

definition EXPIRATION_FUDGE :: int where
  "EXPIRATION_FUDGE = 5"

text \<open>
  The identifier factory, by what \<open>inspect\<close> says of it: a plain callable, a coroutine
  function (\<open>async def\<close>; the function gives what awaiting its call would), or a
  coroutine object. A call that raises is \<open>Inl\<close>.
\<close>

datatype 'r factory =
    Function "'r \<Rightarrow> error + ident"
  | CoroutineFunction "'r \<Rightarrow> error + ident"
  | Coroutine "error + ident"

text \<open>The attributes \<open>__init__\<close> sets on a strategy.\<close>

record 'r strategy =
  strategy_request_identifier :: "'r factory"
  strategy_ratelimit_config :: RateLimitConfig
  strategy_prefix :: string

text \<open>
  \<open>_get_request_identifier\<close>: for a coroutine or coroutine function the method reads
  \<open>self._response_on_limit_exceeded\<close>, an attribute that no class of the module
  defines, so the attribute lookup raises before anything is called or awaited.
\<close>

definition get_request_identifier :: "'r strategy \<Rightarrow> 'r \<Rightarrow> error + ident" where
  "get_request_identifier self request =
     (case strategy_request_identifier self of
        Coroutine r \<Rightarrow> Inl AttributeError
      | CoroutineFunction f \<Rightarrow> Inl AttributeError
      | Function f \<Rightarrow> f request)"

section \<open>The window of the bucketing strategy\<close>

text \<open>\<open>request_identifier\<close> as bytes: itself, or its UTF-8 encoding.\<close>

fun identifier_bytes :: "ident \<Rightarrow> byte list" where
  "identifier_bytes (IdBytes bs) = bs"
| "identifier_bytes (IdStr s) = utf8_encode s"

text \<open>
  The body of \<open>_get_window\<close>, that is, what awaiting the coroutine would return;
  \<open>epoch_time\<close> is the reading \<open>int(time.time())\<close>. Python's \<open>%\<close> raises on a zero
  divisor and otherwise agrees with \<open>mod\<close> on \<open>int\<close>.
\<close>

definition get_window :: "'r strategy \<Rightarrow> int \<Rightarrow> ident \<Rightarrow> error + int" where
  "get_window self epoch_time request_identifier =
     (let period = period_in_seconds (strategy_ratelimit_config self) in
      if period = 1 then Inr epoch_time
      else if period = 0 then Inl ZeroDivisionError
      else
        let w = epoch_time - (epoch_time mod period)
                  + (crc32 (identifier_bytes request_identifier) mod period)
        in if w < epoch_time then Inr (w + period) else Inr w)"

section \<open>The store\<close>

text \<open>
  The Redis commands the strategies send, on the keys they touch. A key holds an
  integer counter or a sorted set, and the time of the server's clock, in
  milliseconds, after which it is gone (if one was set). Every command runs at a
  reading \<open>now\<close> of the server's clock. Members are the text the strategies write, and
  scores are integers, as the strategies write them (Redis keeps them as doubles, exact
  up to \<open>2 ^ 53\<close>). A failing connection is not part of the model.
\<close>

datatype rvalue = RInt int | RZSet "(string \<times> int) list"

type_synonym redis = "string \<Rightarrow> (rvalue \<times> int option) option"

datatype command =
    INCR string
  | EXPIRE string int
  | ZREMRANGEBYSCORE string int int
  | ZADD string string int
  | ZRANGE string int int

text \<open>
  A member as the client hands it over: a \<open>str\<close> when the client decodes replies
  (\<open>decode_responses=True\<close>), the \<open>bytes\<close> of its UTF-8 encoding otherwise.
\<close>

datatype member = MemberStr string | MemberBytes "byte list"

datatype reply = Integer int | Boolean bool | Members "member list" | Error

definition LLONG_MAX :: int where
  "LLONG_MAX = 2 ^ 63 - 1"

text \<open>What a key holds at the time \<open>now\<close>: nothing once its time has passed.\<close>

definition live :: "int \<Rightarrow> redis \<Rightarrow> string \<Rightarrow> (rvalue \<times> int option) option" where
  "live now db key =
     (case db key of
        None \<Rightarrow> None
      | Some (v, None) \<Rightarrow> Some (v, None)
      | Some (v, Some deadline) \<Rightarrow> if now > deadline then None else Some (v, Some deadline))"

text \<open>\<open>INCR\<close>: a missing key counts from 0; the counter is a signed 64-bit integer.\<close>

definition incr :: "int \<Rightarrow> string \<Rightarrow> redis \<Rightarrow> reply \<times> redis" where
  "incr now key db =
     (case live now db key of
        None \<Rightarrow> (Integer 1, db(key \<mapsto> (RInt 1, None)))
      | Some (RInt n, ttl) \<Rightarrow>
          if n < LLONG_MAX then (Integer (n + 1), db(key \<mapsto> (RInt (n + 1), ttl)))
          else (Error, db)
      | Some (RZSet zs, ttl) \<Rightarrow> (Error, db))"

text \<open>
  \<open>EXPIRE\<close>: the server refuses a time whose conversion to milliseconds, or whose
  sum with the clock, leaves the signed 64-bit integers. Otherwise, on a key that
  exists, a time that is not positive deletes the key, and a positive one sets when
  the key is gone.
\<close>

definition expire :: "int \<Rightarrow> string \<Rightarrow> int \<Rightarrow> redis \<Rightarrow> reply \<times> redis" where
  "expire now key seconds db =
     (if seconds > LLONG_MAX div 1000 \<or> seconds < - (LLONG_MAX div 1000) then (Error, db)
      else if seconds * 1000 > LLONG_MAX - now then (Error, db)
      else case live now db key of
             None \<Rightarrow> (Boolean False, db(key := None))
           | Some (v, ttl) \<Rightarrow>
               if seconds * 1000 + now \<le> now then (Boolean True, db(key := None))
               else (Boolean True, db(key \<mapsto> (v, Some (seconds * 1000 + now)))))"

definition in_score_range :: "int \<Rightarrow> int \<Rightarrow> string \<times> int \<Rightarrow> bool" where
  "in_score_range lo hi e = (lo \<le> snd e \<and> snd e \<le> hi)"

text \<open>
  \<open>ZREMRANGEBYSCORE\<close>: removes the members with \<open>lo \<le> score \<le> hi\<close>; a sorted set
  left empty is deleted.
\<close>

definition zremrangebyscore :: "int \<Rightarrow> string \<Rightarrow> int \<Rightarrow> int \<Rightarrow> redis \<Rightarrow> reply \<times> redis" where
  "zremrangebyscore now key lo hi db =
     (case live now db key of
        None \<Rightarrow> (Integer 0, db(key := None))
      | Some (RInt n, ttl) \<Rightarrow> (Error, db)
      | Some (RZSet zs, ttl) \<Rightarrow>
          let keep = filter (\<lambda>e. \<not> in_score_range lo hi e) zs;
              removed = int (length zs) - int (length keep)
          in if keep = [] then (Integer removed, db(key := None))
             else (Integer removed, db(key \<mapsto> (RZSet keep, ttl))))"

definition set_score :: "string \<Rightarrow> int \<Rightarrow> string \<times> int \<Rightarrow> string \<times> int" where
  "set_score m score e = (if fst e = m then (m, score) else e)"

text \<open>\<open>ZADD\<close> of one member: a new member is added, a known one gets the new score.\<close>

definition zadd :: "int \<Rightarrow> string \<Rightarrow> string \<Rightarrow> int \<Rightarrow> redis \<Rightarrow> reply \<times> redis" where
  "zadd now key m score db =
     (case live now db key of
        None \<Rightarrow> (Integer 1, db(key \<mapsto> (RZSet [(m, score)], None)))
      | Some (RInt n, ttl) \<Rightarrow> (Error, db)
      | Some (RZSet zs, ttl) \<Rightarrow>
          if m \<in> set (map fst zs)
          then (Integer 0, db(key \<mapsto> (RZSet (map (set_score m score) zs), ttl)))
          else (Integer 1, db(key \<mapsto> (RZSet (zs @ [(m, score)]), ttl))))"

text \<open>The order of a sorted set: by score, members of one score by their bytes.\<close>

fun str_le :: "string \<Rightarrow> string \<Rightarrow> bool" where
  "str_le [] ys = True"
| "str_le (x # xs) [] = False"
| "str_le (x # xs) (y # ys) =
     ((of_char x :: nat) < of_char y \<or> (x = y \<and> str_le xs ys))"

definition zle :: "string \<times> int \<Rightarrow> string \<times> int \<Rightarrow> bool" where
  "zle a b = (snd a < snd b \<or> (snd a = snd b \<and> str_le (fst a) (fst b)))"

fun zinsert :: "string \<times> int \<Rightarrow> (string \<times> int) list \<Rightarrow> (string \<times> int) list" where
  "zinsert x [] = [x]"
| "zinsert x (y # ys) = (if zle x y then x # y # ys else y # zinsert x ys)"

definition zsort :: "(string \<times> int) list \<Rightarrow> (string \<times> int) list" where
  "zsort zs = foldr zinsert zs []"

text \<open>The index range of \<open>ZRANGE\<close>: both ends included, negative indices from the end.\<close>

definition zslice :: "int \<Rightarrow> int \<Rightarrow> 'a list \<Rightarrow> 'a list" where
  "zslice start stop xs =
     (let n = int (length xs);
          s = (if start < 0 then max 0 (n + start) else start);
          e = (if stop < 0 then n + stop else min stop (n - 1))
      in if s > e \<or> s \<ge> n then [] else take (nat (e - s + 1)) (drop (nat s) xs))"

definition reply_member :: "bool \<Rightarrow> string \<Rightarrow> member" where
  "reply_member decode_responses m =
     (if decode_responses then MemberStr m else MemberBytes (utf8_encode m))"

text \<open>\<open>ZRANGE\<close>, with the members as the client hands them over.\<close>

definition zrange :: "bool \<Rightarrow> int \<Rightarrow> string \<Rightarrow> int \<Rightarrow> int \<Rightarrow> redis \<Rightarrow> reply \<times> redis" where
  "zrange decode_responses now key start stop db =
     (case live now db key of
        None \<Rightarrow> (Members [], db(key := None))
      | Some (RInt n, ttl) \<Rightarrow> (Error, db)
      | Some (RZSet zs, ttl) \<Rightarrow>
          (Members (map (reply_member decode_responses)
                      (zslice start stop (map fst (zsort zs)))), db))"

fun run_command :: "bool \<Rightarrow> int \<Rightarrow> command \<Rightarrow> redis \<Rightarrow> reply \<times> redis" where
  "run_command decode_responses now (INCR key) db = incr now key db"
| "run_command decode_responses now (EXPIRE key seconds) db = expire now key seconds db"
| "run_command decode_responses now (ZREMRANGEBYSCORE key lo hi) db =
     zremrangebyscore now key lo hi db"
| "run_command decode_responses now (ZADD key m score) db = zadd now key m score db"
| "run_command decode_responses now (ZRANGE key start stop) db =
     zrange decode_responses now key start stop db"

fun run_commands :: "bool \<Rightarrow> int \<Rightarrow> command list \<Rightarrow> redis \<Rightarrow> reply list \<times> redis" where
  "run_commands decode_responses now [] db = ([], db)"
| "run_commands decode_responses now (c # cs) db =
     (let (r, db') = run_command decode_responses now c db;
          (rs, db'') = run_commands decode_responses now cs db'
      in (r # rs, db''))"

text \<open>
  \<open>pipe. ... .execute()\<close>: the queued commands run in order as one transaction, at one
  reading of the server's clock, each on the state the one before left; a command that
  fails does not stop the later ones, and \<open>execute\<close> then raises instead of returning
  the replies.
\<close>

definition execute ::
  "bool \<Rightarrow> int \<Rightarrow> command list \<Rightarrow> redis \<Rightarrow> (error + reply list) \<times> redis" where
  "execute decode_responses now cs db =
     (let (rs, db') = run_commands decode_responses now cs db
      in if Error \<in> set rs then (Inl ResponseError, db') else (Inr rs, db'))"

section \<open>The sliding-window strategy\<close>

text \<open>
  \<open>int(i.split(':')[-1])\<close>: \<open>bytes.split\<close> refuses the \<open>str\<close> separator with a
  TypeError.
\<close>

fun weight_suffix :: "member \<Rightarrow> error + int" where
  "weight_suffix (MemberStr i) = py_int (last (split_on CHR '':'' i))"
| "weight_suffix (MemberBytes i) = Inl TypeError"

text \<open>\<open>sum(int(i.split(':')[-1]) for i in members)\<close>.\<close>

fun sum_weights :: "member list \<Rightarrow> error + int" where
  "sum_weights [] = Inr 0"
| "sum_weights (i # rest) =
     (case weight_suffix i of
        Inl e \<Rightarrow> Inl e
      | Inr n \<Rightarrow> (case sum_weights rest of Inl e \<Rightarrow> Inl e | Inr t \<Rightarrow> Inr (n + t)))"

definition sliding_storage_key :: "'r strategy \<Rightarrow> ident \<Rightarrow> string" where
  "sliding_storage_key self request_identifier =
     strategy_prefix self @ '':'' @ format_ident request_identifier"

definition sliding_member :: "int \<Rightarrow> string" where
  "sliding_member epoch_ms = str_int epoch_ms @ '':1''"

text \<open>The pipeline of \<open>SlidingWindowLimitStrategy.get_ratelimit_status\<close>.\<close>

definition sliding_commands :: "string \<Rightarrow> int \<Rightarrow> int \<Rightarrow> command list" where
  "sliding_commands storage_key epoch_ms period =
     [ZREMRANGEBYSCORE storage_key 0 (epoch_ms - (period * 100)),
      ZADD storage_key (sliding_member epoch_ms) epoch_ms,
      ZRANGE storage_key 0 (- 1),
      EXPIRE storage_key ((period * 1000) + 1)]"

text \<open>
  \<open>SlidingWindowLimitStrategy.get_ratelimit_status\<close>. \<open>epoch_ms\<close> is the reading
  \<open>int(time.time() * 1000)\<close>; \<open>decode_responses\<close> is the setting of the client behind
  \<open>request.state.redis\<close>, \<open>server_ms\<close> the reading of the server's clock at which the
  transaction runs, and \<open>db\<close> the store.
\<close>

definition sliding_get_ratelimit_status ::
  "'r strategy \<Rightarrow> 'r \<Rightarrow> bool \<Rightarrow> int \<Rightarrow> int \<Rightarrow> redis
     \<Rightarrow> (error + RateLimitStatus) \<times> redis" where
  "sliding_get_ratelimit_status self request decode_responses epoch_ms server_ms db =
     (case get_request_identifier self request of
        Inl e \<Rightarrow> (Inl e, db)
      | Inr request_identifier \<Rightarrow>
          let storage_key = sliding_storage_key self request_identifier;
              period = period_in_seconds (strategy_ratelimit_config self)
          in (case execute decode_responses server_ms
                     (sliding_commands storage_key epoch_ms period) db of
                (Inl e, db') \<Rightarrow> (Inl e, db')
              | (Inr result, db') \<Rightarrow>
                  (case result of
                     [r0, r1, Members members, r3] \<Rightarrow>
                       (case sum_weights members of
                          Inl e \<Rightarrow> (Inl e, db')
                        | Inr n \<Rightarrow>
                            (Inr \<lparr>number_of_requests = n,
                                  ratelimit_config = strategy_ratelimit_config self,
                                  time_left = - 1\<rparr>, db'))
                   | _ \<Rightarrow> (Inl TypeError, db'))))"

text \<open>
  Evaluations one after the other on one store; each takes its reading \<open>epoch_ms\<close> and
  the reading of the server's clock.
\<close>

fun sliding_evaluations ::
  "'r strategy \<Rightarrow> 'r \<Rightarrow> bool \<Rightarrow> (int \<times> int) list \<Rightarrow> redis
     \<Rightarrow> (error + RateLimitStatus) list \<times> redis" where
  "sliding_evaluations self request decode_responses [] db = ([], db)"
| "sliding_evaluations self request decode_responses (t # ts) db =
     (let (r, db') = sliding_get_ratelimit_status self request decode_responses (fst t) (snd t) db;
          (rs, db'') = sliding_evaluations self request decode_responses ts db'
      in (r # rs, db''))"

text \<open>The sorted set a key holds, empty when the key holds none.\<close>

definition zset_at :: "redis \<Rightarrow> string \<Rightarrow> (string \<times> int) list" where
  "zset_at db key = (case db key of Some (RZSet zs, ttl) \<Rightarrow> zs | _ \<Rightarrow> [])"

section \<open>The bucketing strategy\<close>

text \<open>
  \<open>_create_storage_key\<close>. \<open>hashlib.md5(...).hexdigest()\<close> is a parameter of the model.
\<close>

definition create_storage_key ::
  "(byte list \<Rightarrow> string) \<Rightarrow> 'r strategy \<Rightarrow> 'r pyval list \<Rightarrow> error + string" where
  "create_storage_key md5_hexdigest self parts =
     (let safe_rate = str_int (max_count (strategy_ratelimit_config self)) @ ''/''
                        @ str_int (period_in_seconds (strategy_ratelimit_config self)) @ ''s''
      in case str_join (PyStr safe_rate # parts) of
           Inl e \<Rightarrow> Inl e
         | Inr text \<Rightarrow> Inr (strategy_prefix self @ md5_hexdigest (utf8_encode text)))"

fun ident_val :: "ident \<Rightarrow> 'r pyval" where
  "ident_val (IdStr s) = PyStr s"
| "ident_val (IdBytes bs) = PyBytes bs"

text \<open>\<open>window - int(time.time())\<close>: defined on integers only.\<close>

fun py_sub :: "'r pyval \<Rightarrow> int \<Rightarrow> error + int" where
  "py_sub (PyInt a) b = Inr (a - b)"
| "py_sub v b = Inl TypeError"

text \<open>
  \<open>BucketingRateLimitStrategy.get_ratelimit_status\<close>. The method calls the coroutine
  function \<open>_get_window\<close> without awaiting it, so \<open>window\<close> is the coroutine object
  (at address \<open>addr\<close>), not the integer its body would return; and it hands the request
  object to \<open>_create_storage_key\<close> as the first part. \<open>now\<close> is the reading
  \<open>int(time.time())\<close> of the last statement; \<open>decode_responses\<close> and \<open>server_ms\<close> are
  as for the sliding window.
\<close>

definition bucketing_get_ratelimit_status ::
  "(byte list \<Rightarrow> string) \<Rightarrow> 'r strategy \<Rightarrow> 'r \<Rightarrow> bool \<Rightarrow> nat \<Rightarrow> int \<Rightarrow> int \<Rightarrow> redis
     \<Rightarrow> (error + RateLimitStatus) \<times> redis" where
  "bucketing_get_ratelimit_status md5_hexdigest self request decode_responses addr now
       server_ms db =
     (case get_request_identifier self request of
        Inl e \<Rightarrow> (Inl e, db)
      | Inr request_identifier \<Rightarrow>
          let window = (PyCoroutine addr :: 'r pyval)
          in (case create_storage_key md5_hexdigest self
                     [PyRequest request, ident_val request_identifier,
                      PyStr (str_coroutine addr)] of
               Inl e \<Rightarrow> (Inl e, db)
             | Inr storage_key \<Rightarrow>
                 (case execute decode_responses server_ms
                         [INCR storage_key,
                          EXPIRE storage_key
                            (period_in_seconds (strategy_ratelimit_config self)
                               + EXPIRATION_FUDGE)] db of
                    (Inl e, db') \<Rightarrow> (Inl e, db')
                  | (Inr pipeline_result, db') \<Rightarrow>
                      (case pipeline_result of
                         Integer n # rest \<Rightarrow>
                           (case py_sub window now of
                              Inl e \<Rightarrow> (Inl e, db')
                            | Inr left \<Rightarrow>
                                (Inr \<lparr>number_of_requests = n,
                                      ratelimit_config = strategy_ratelimit_config self,
                                      time_left = left\<rparr>, db'))
                       | _ \<Rightarrow> (Inl TypeError, db')))))"

section \<open>Example inputs\<close>

text \<open>
  A strategy with the default prefix whose identifier factory is a plain function
  returning the address \<open>1.2.3.4\<close>; a store whose ledger for that address holds two
  events, 2000 ms and 500 ms before the reading \<open>1700000100000\<close>; an empty store; five
  readings one second apart, at which the client's and the server's clocks agree.
\<close>

definition example_factory :: "unit \<Rightarrow> error + ident" where
  "example_factory request = Inr (IdStr ''1.2.3.4'')"

definition example_strategy :: "int \<Rightarrow> int \<Rightarrow> unit strategy" where
  "example_strategy n p =
     \<lparr>strategy_request_identifier = Function example_factory,
      strategy_ratelimit_config = \<lparr>max_count = n, period_in_seconds = p\<rparr>,
      strategy_prefix = DEFAULT_PREFIX\<rparr>"

definition example_ledger :: redis where
  "example_ledger =
     (\<lambda>key. None)(''rl::1.2.3.4'' \<mapsto>
        (RZSet [(''1700000098000:1'', 1700000098000), (''1700000099500:1'', 1700000099500)],
         None))"

definition empty_store :: redis where
  "empty_store = (\<lambda>key. None)"

definition example_readings :: "(int \<times> int) list" where
  "example_readings =
     [(1700000000000, 1700000000000), (1700000001000, 1700000001000),
      (1700000002000, 1700000002000), (1700000003000, 1700000003000),
      (1700000004000, 1700000004000)]"

section \<open>Lemmas\<close>

subsection \<open>Examples\<close>

lemma crc32_byte_unfold:
  "crc32_byte c b = crc32_bit (crc32_bit (crc32_bit (crc32_bit
     (crc32_bit (crc32_bit (crc32_bit (crc32_bit (c XOR ucast b))))))))"
  by (simp add: crc32_byte_def eval_nat_numeral)

lemma crc32_example: "crc32 (utf8_encode ''1.2.3.4'') = 961314917"
  by (simp add: crc32_def crc32_byte_unfold crc32_bit_def utf8_encode_def utf8_char_def)

lemma example_identifier:
  "get_request_identifier (example_strategy n p) () = Inr (IdStr ''1.2.3.4'')"
  by (simp add: get_request_identifier_def example_strategy_def example_factory_def)

lemma example_period: "period_in_seconds (strategy_ratelimit_config (example_strategy n p)) = p"
  by (simp add: example_strategy_def)

subsection \<open>The window\<close>

lemma window_arith:
  fixes p now j w :: int
  assumes "0 < p" "0 \<le> j" "j < p"
    and "w = (if now - now mod p + j < now then now - now mod p + j + p else now - now mod p + j)"
  shows "now \<le> w" "w < now + p" "p dvd (w - j)"
proof -
  define r where "r = now mod p"
  have m: "0 \<le> r" "r < p" using assms(1) by (simp_all add: r_def)
  have w: "w = (if now - r + j < now then now - r + j + p else now - r + j)"
    using assms(4) by (simp add: r_def)
  show "now \<le> w" using w m assms(1-3) by (cases "now - r + j < now") simp_all
  show "w < now + p" using w m assms(1-3) by (cases "now - r + j < now") simp_all
  have d: "p dvd (now - r)" by (simp add: r_def dvd_eq_mod_eq_0 minus_mod_eq_mult_div)
  then have "p dvd (now - r) + p" by simp
  moreover have "w - j = now - r \<or> w - j = (now - r) + p"
    using w by (cases "now - r + j < now") simp_all
  ultimately show "p dvd (w - j)" using d by auto
qed

text \<open>A stretch of \<open>p\<close> seconds holds one time of each residue modulo \<open>p\<close>.\<close>

lemma window_unique:
  fixes p now j w w' :: int
  assumes "0 < p" "now \<le> w" "w < now + p" "p dvd (w - j)"
    "now \<le> w'" "w' < now + p" "p dvd (w' - j)"
  shows "w = w'"
proof -
  have "p dvd ((w - j) - (w' - j))" using assms(4,7) by (rule dvd_diff)
  then have d: "p dvd (w - w')" by simp
  have b: "\<bar>w - w'\<bar> < p" using assms by arith
  show ?thesis
  proof (rule ccontr)
    assume "w \<noteq> w'"
    then have "w - w' \<noteq> 0" by simp
    with d have "p \<le> \<bar>w - w'\<bar>" using assms(1)
      by (metis dvd_imp_le_int abs_of_pos)
    with b show False by simp
  qed
qed

text \<open>
  The window end is the first time from \<open>now\<close> on whose residue modulo the period is
  the jitter of the identifier.
\<close>

lemma get_window_char:
  assumes "0 < period_in_seconds (strategy_ratelimit_config self)"
  shows "\<exists>w. get_window self now ident = Inr w \<and> now \<le> w
           \<and> w < now + period_in_seconds (strategy_ratelimit_config self)
           \<and> (period_in_seconds (strategy_ratelimit_config self) = 1
                \<or> period_in_seconds (strategy_ratelimit_config self) dvd
                    (w - crc32 (identifier_bytes ident)
                           mod period_in_seconds (strategy_ratelimit_config self)))"
proof -
  define p where "p = period_in_seconds (strategy_ratelimit_config self)"
  define j where "j = crc32 (identifier_bytes ident) mod p"
  have p: "0 < p" using assms by (simp add: p_def)
  have j: "0 \<le> j" "j < p" using p by (simp_all add: j_def)
  show ?thesis
  proof (cases "p = 1")
    case True
    then show ?thesis by (simp add: get_window_def p_def [symmetric])
  next
    case False
    define w where "w = (if now - now mod p + j < now then now - now mod p + j + p
                         else now - now mod p + j)"
    have g: "get_window self now ident = Inr w"
      using False p by (simp add: get_window_def p_def [symmetric] j_def [symmetric] w_def Let_def)
    from window_arith [OF p j w_def] g show ?thesis
      by (simp add: p_def [symmetric] j_def [symmetric])
  qed
qed

section \<open>The claims\<close>

text \<open>
  C1. The claim is not what the code does: the bound the method passes to
  \<open>ZREMRANGEBYSCORE\<close> is \<open>epoch_ms - period_in_seconds * 100\<close>, seconds times 100 taken
  from milliseconds, without the factor 1000 that the method applies to seconds in the
  statements around it. With a period of 10 seconds, at the reading \<open>1700000100000\<close>,
  the event of 2000 ms before is younger than \<open>10 * 100 * 1000\<close> ms and yet the
  evaluation removes it: the sorted set is left with the event of 500 ms before and
  the new one.
\<close>

theorem sliding_removes_recent_event:
  "\<not> ((1700000098000 :: int) \<le> 1700000100000 - 10 * 100 * 1000)
   \<and> (''1700000098000:1'', 1700000098000) \<in> set (zset_at example_ledger ''rl::1.2.3.4'')
   \<and> zset_at (snd (sliding_get_ratelimit_status (example_strategy 5 10) () True
                      1700000100000 1700000100000 example_ledger)) ''rl::1.2.3.4''
       = [(''1700000099500:1'', 1700000099500), (''1700000100000:1'', 1700000100000)]"
  by code_simp

text \<open>
  C2. The claim is not what the code does: \<open>get_ratelimit_status\<close> hands
  \<open>_create_storage_key\<close> the request object, the identifier and \<open>str\<close> of the coroutine
  object a call of \<open>_get_window\<close> makes. The request object is not a \<open>str\<close>, so the join
  raises TypeError and no key is derived, whatever the configuration, the identifier
  and the window.
\<close>

theorem create_storage_key_raises:
  "create_storage_key md5_hexdigest self
     [PyRequest request, ident_val ident, PyStr (str_coroutine addr)] = Inl TypeError"
  by (simp add: create_storage_key_def)

text \<open>
  C3. The claim is not what the code does: on an empty store, an evaluation of the
  bucketing strategy with rate \<open>3/60s\<close> raises TypeError and leaves the store empty: no
  counter is incremented and no decision is returned.
\<close>

theorem bucketing_evaluation_raises:
  "bucketing_get_ratelimit_status md5_hexdigest (example_strategy 3 60) () decode_responses
       addr now server_ms empty_store
     = (Inl TypeError, empty_store)"
  by (simp add: bucketing_get_ratelimit_status_def example_identifier create_storage_key_def)

text \<open>
  C4. The claim is not what the code does for a factory that is a coroutine function:
  the method raises AttributeError and the factory is never called, so the identifier
  is not the value the factory would produce.
\<close>

theorem coroutine_function_factory_raises:
  "get_request_identifier (self\<lparr>strategy_request_identifier := CoroutineFunction f\<rparr>) request
     = Inl AttributeError"
  by (simp add: get_request_identifier_def)

text \<open>
  C5. For every identifier and every \<open>now\<close>, and a period that is not 0 (where \<open>%\<close>
  raises), \<open>_get_window\<close> returns \<open>now\<close> when the period is 1, and otherwise
  \<open>w = now - now mod period + crc32(identifier bytes) mod period\<close>, plus one period when
  \<open>w < now\<close>.
\<close>

theorem get_window_value:
  assumes "period_in_seconds (strategy_ratelimit_config self) \<noteq> 0"
  shows "get_window self now ident =
           Inr (if period_in_seconds (strategy_ratelimit_config self) = 1 then now
                else if now - (now mod period_in_seconds (strategy_ratelimit_config self))
                          + (crc32 (identifier_bytes ident)
                               mod period_in_seconds (strategy_ratelimit_config self)) < now
                then now - (now mod period_in_seconds (strategy_ratelimit_config self))
                       + (crc32 (identifier_bytes ident)
                            mod period_in_seconds (strategy_ratelimit_config self))
                       + period_in_seconds (strategy_ratelimit_config self)
                else now - (now mod period_in_seconds (strategy_ratelimit_config self))
                       + (crc32 (identifier_bytes ident)
                            mod period_in_seconds (strategy_ratelimit_config self)))"
  using assms by (simp add: get_window_def Let_def)

theorem get_window_value_witness:
  "period_in_seconds (strategy_ratelimit_config (example_strategy 3 60)) \<noteq> 0
   \<and> get_window (example_strategy 3 60) 1700000000 (IdStr ''1.2.3.4'') = Inr 1700000057"
proof -
  have p: "period_in_seconds (strategy_ratelimit_config (example_strategy 3 60)) \<noteq> 0"
    by (simp add: example_period)
  show ?thesis
    using get_window_value [OF p, of 1700000000 "IdStr ''1.2.3.4''"] p
    by (simp add: example_period crc32_example)
qed

text \<open>
  C6. For a fixed identifier and a positive period, \<open>_get_window\<close> returns a window
  end \<open>w\<close> that is not before \<open>now1\<close>, and it returns the same \<open>w\<close> at every time
  \<open>now2\<close> of the same period, the period of rate evaluation that ends at \<open>w\<close>:
  \<open>w - period < now2 \<le> w\<close>. (The periods of an identifier are not the stretches between
  multiples of the period length: their boundaries carry the identifier's jitter.)
\<close>

theorem get_window_same_period:
  assumes "0 < period_in_seconds (strategy_ratelimit_config self)"
  shows "\<exists>w. get_window self now1 ident = Inr w \<and> now1 \<le> w
           \<and> (\<forall>now2. w - period_in_seconds (strategy_ratelimit_config self) < now2 \<and> now2 \<le> w
                  \<longrightarrow> get_window self now2 ident = Inr w)"
proof -
  define p where "p = period_in_seconds (strategy_ratelimit_config self)"
  define j where "j = crc32 (identifier_bytes ident) mod p"
  have p: "0 < p" using assms by (simp add: p_def)
  obtain w where w: "get_window self now1 ident = Inr w" "now1 \<le> w" "w < now1 + p"
      "p = 1 \<or> p dvd (w - j)"
    using get_window_char [OF assms, of now1 ident] by (auto simp: p_def j_def)
  have "get_window self now2 ident = Inr w" if r: "w - p < now2" "now2 \<le> w" for now2
  proof -
    obtain w' where w': "get_window self now2 ident = Inr w'" "now2 \<le> w'" "w' < now2 + p"
        "p = 1 \<or> p dvd (w' - j)"
      using get_window_char [OF assms, of now2 ident] by (auto simp: p_def j_def)
    have "w' = w"
    proof (cases "p = 1")
      case True
      then show ?thesis using r w'(2,3) by simp
    next
      case False
      have "now2 \<le> w" "w < now2 + p" using r by simp_all
      then show ?thesis using window_unique [OF p w'(2,3) _ _ _ _, of j w] w(4) w'(4) False
        by simp
    qed
    then show ?thesis using w'(1) by simp
  qed
  then show ?thesis using w(1,2) by (auto simp: p_def)
qed

theorem get_window_same_period_witness:
  "(0::int) < period_in_seconds (strategy_ratelimit_config (example_strategy 3 60))
   \<and> get_window (example_strategy 3 60) 1700000000 (IdStr ''1.2.3.4'') = Inr 1700000057
   \<and> (1700000000::int) \<le> 1700000057
   \<and> (1700000057::int) - 60 < 1700000030 \<and> (1700000030::int) \<le> 1700000057
   \<and> get_window (example_strategy 3 60) 1700000030 (IdStr ''1.2.3.4'') = Inr 1700000057"
proof -
  have p: "(0::int) < period_in_seconds (strategy_ratelimit_config (example_strategy 3 60))"
    by (simp add: example_period)
  obtain w where w: "get_window (example_strategy 3 60) 1700000000 (IdStr ''1.2.3.4'') = Inr w"
    and same: "\<And>now2. w - 60 < now2 \<Longrightarrow> now2 \<le> w
                 \<Longrightarrow> get_window (example_strategy 3 60) now2 (IdStr ''1.2.3.4'') = Inr w"
    using get_window_same_period [OF p, of 1700000000 "IdStr ''1.2.3.4''"]
    by (auto simp: example_period)
  have "get_window (example_strategy 3 60) 1700000000 (IdStr ''1.2.3.4'') = Inr 1700000057"
    by (simp add: get_window_def example_period crc32_example)
  with w have v: "w = 1700000057" by simp
  have "get_window (example_strategy 3 60) 1700000030 (IdStr ''1.2.3.4'') = Inr w"
    by (rule same) (simp_all add: v)
  then show ?thesis using w v p by simp
qed

text \<open>
  C7. The claim is not what the code does: no evaluation of the bucketing strategy
  returns a decision, so none carries \<open>time_left = windowEnd - now\<close>. The key derivation
  raises before the store is reached, and \<open>window\<close> is a coroutine object, from which
  no integer can be subtracted.
\<close>

theorem bucketing_returns_no_decision:
  "fst (bucketing_get_ratelimit_status md5_hexdigest self request decode_responses addr now
          server_ms db) \<noteq> Inr d"
  by (simp add: bucketing_get_ratelimit_status_def create_storage_key_def split: sum.splits)

text \<open>
  C8. The claim is not what the code does in its example: with a period of 10 seconds
  and a client that decodes replies, five evaluations one second apart on a key that
  does not exist yet, all within 100 periods, return the count 1 each time, not
  1, 2, 3, 4, 5: each evaluation first removes the events of \<open>period_in_seconds * 100\<close>
  milliseconds before and earlier. Each decision has \<open>time_left = -1\<close>.
\<close>

theorem sliding_fifth_count_is_one:
  "(1700000004000 :: int) - 1700000000000 < 10 * 100 * 1000
   \<and> map (map_sum id number_of_requests)
        (fst (sliding_evaluations (example_strategy 5 10) () True example_readings empty_store))
       = [Inr 1, Inr 1, Inr 1, Inr 1, Inr 1]
   \<and> last (fst (sliding_evaluations (example_strategy 5 10) () True example_readings
                   empty_store))
       = Inr \<lparr>number_of_requests = 1,
               ratelimit_config = \<lparr>max_count = 5, period_in_seconds = 10\<rparr>,
               time_left = - 1\<rparr>"
  by code_simp

text \<open>
  C9. For every status, \<open>remaining_number_of_requests\<close> is \<open>max_count\<close> minus the number
  of requests (negative when the number is larger), and \<open>should_limit\<close> says that the
  number of requests exceeds \<open>max_count\<close>; it is false when they are equal.
\<close>

theorem status_derived_fields:
  "remaining_number_of_requests s = max_count (ratelimit_config s) - number_of_requests s
   \<and> should_limit s = (number_of_requests s > max_count (ratelimit_config s))
   \<and> \<not> should_limit (s\<lparr>number_of_requests := max_count (ratelimit_config s)\<rparr>)"
  by (simp add: remaining_number_of_requests_def should_limit_def limit_def)

text \<open>
  C10. For a period of at least 2 seconds, the window end \<open>w\<close> that \<open>_get_window\<close>
  returns satisfies \<open>now \<le> w < now + period\<close>, so \<open>w - now\<close> lies in \<open>[0, period)\<close>.
\<close>

theorem get_window_in_period:
  assumes "2 \<le> period_in_seconds (strategy_ratelimit_config self)"
  shows "\<exists>w. get_window self now ident = Inr w \<and> now \<le> w
           \<and> w < now + period_in_seconds (strategy_ratelimit_config self)
           \<and> 0 \<le> w - now \<and> w - now < period_in_seconds (strategy_ratelimit_config self)"
proof -
  have "0 < period_in_seconds (strategy_ratelimit_config self)" using assms by simp
  from get_window_char [OF this, of now ident] show ?thesis by auto
qed

theorem get_window_in_period_witness:
  "(2::int) \<le> period_in_seconds (strategy_ratelimit_config (example_strategy 3 60))
   \<and> get_window (example_strategy 3 60) 1700000000 (IdStr ''1.2.3.4'') = Inr 1700000057
   \<and> (1700000000::int) \<le> 1700000057 \<and> (1700000057::int) < 1700000000 + 60"
proof -
  have p: "(2::int) \<le> period_in_seconds (strategy_ratelimit_config (example_strategy 3 60))"
    by (simp add: example_period)
  obtain w where w: "get_window (example_strategy 3 60) 1700000000 (IdStr ''1.2.3.4'') = Inr w"
    and b: "1700000000 \<le> w" "w < 1700000000 + 60"
    using get_window_in_period [OF p, of 1700000000 "IdStr ''1.2.3.4''"]
    by (auto simp: example_period)
  have "get_window (example_strategy 3 60) 1700000000 (IdStr ''1.2.3.4'') = Inr 1700000057"
    by (simp add: get_window_def example_period crc32_example)
  with w have "w = 1700000057" by simp
  then show ?thesis using w b p by simp
qed

end
